theory Spec2Isabelle
  imports Complex_Main "HOL-Library.Signed_Division"
begin

section \<open>Grove sensors and actuators: the sketch as HOL functions\<close>

text \<open>
  The sketch \<^verbatim>\<open>grove-sensors-actuators.cpp\<close> reads one sensor, normalises the reading,
  optionally reverses it and drives one actuator. Hardware calls are the boundary of the
  model: what a read call returns is an input of the cycle (\<open>hw_in\<close>), what a write call
  receives is an event of the cycle's trace.

  A C \<^verbatim>\<open>float\<close> or \<^verbatim>\<open>double\<close> is modelled as \<open>cfloat\<close>: the not-a-number marker
  \<open>NaN\<close>, or a finite number \<open>Fin x\<close> with \<open>x\<close> a real; the infinities are left out.
  Every comparison with \<open>NaN\<close> is false and every operation on \<open>NaN\<close> gives \<open>NaN\<close>, as
  in C. The operations \<open>fsub\<close>, \<open>fmul\<close> and \<open>fdiv\<close> are exact. From the value that a
  sensor read function returns onwards, the results that the sketch keeps in a \<^verbatim>\<open>float\<close>
  are rounded to single precision by \<open>to_float\<close>: the reversal \<^verbatim>\<open>1 - SensorValue\<close> and
  the product \<^verbatim>\<open>value *= 255.0\<close> of the buzzer and the LED (the product with the
  \<^verbatim>\<open>double\<close> 255.0 is exact for a \<^verbatim>\<open>float\<close>, the assignment rounds it). The \<^verbatim>\<open>double\<close>
  expression of \<^verbatim>\<open>write7Seg\<close> is exact for every \<^verbatim>\<open>float\<close>. The sensor read functions,
  which start from raw readings, are kept in exact arithmetic.
\<close>

subsection \<open>Numbers\<close>

datatype cfloat = NaN | Fin real

fun isnan :: "cfloat \<Rightarrow> bool" where
  "isnan NaN = True"
| "isnan (Fin x) = False"

fun fsub :: "cfloat \<Rightarrow> cfloat \<Rightarrow> cfloat" where
  "fsub (Fin x) (Fin y) = Fin (x - y)"
| "fsub _ _ = NaN"

fun fmul :: "cfloat \<Rightarrow> cfloat \<Rightarrow> cfloat" where
  "fmul (Fin x) (Fin y) = Fin (x * y)"
| "fmul _ _ = NaN"

text \<open>Every divisor of the sketch is a non-zero literal.\<close>

fun fdiv :: "cfloat \<Rightarrow> cfloat \<Rightarrow> cfloat" where
  "fdiv (Fin x) (Fin y) = Fin (x / y)"
| "fdiv _ _ = NaN"

fun flt :: "cfloat \<Rightarrow> cfloat \<Rightarrow> bool" where
  "flt (Fin x) (Fin y) = (x < y)"
| "flt _ _ = False"

fun fgt :: "cfloat \<Rightarrow> cfloat \<Rightarrow> bool" where
  "fgt (Fin x) (Fin y) = (x > y)"
| "fgt _ _ = False"

text \<open>The conversion \<^verbatim>\<open>(float)n\<close> of an integer.\<close>

definition of_cint :: "int \<Rightarrow> cfloat" where
  "of_cint n = Fin (of_int n)"

text \<open>C's \<^verbatim>\<open>round\<close>: to the nearest integer, halfway cases away from zero.\<close>

definition c_round :: "real \<Rightarrow> int" where
  "c_round x = (if 0 \<le> x then \<lfloor>x + 1 / 2\<rfloor> else \<lceil>x - 1 / 2\<rceil>)"

fun fround :: "cfloat \<Rightarrow> cfloat" where
  "fround NaN = NaN"
| "fround (Fin x) = Fin (of_int (c_round x))"

definition INT_MIN :: int where
  "INT_MIN = - 2147483648"

definition INT_MAX :: int where
  "INT_MAX = 2147483647"

text \<open>
  The conversion \<^verbatim>\<open>(int)x\<close> truncates towards zero. C++ leaves it undefined when the
  truncated value is not an \<^verbatim>\<open>int\<close> and for not-a-number: \<open>None\<close>.
\<close>

definition c_trunc :: "real \<Rightarrow> int" where
  "c_trunc x = (if 0 \<le> x then \<lfloor>x\<rfloor> else \<lceil>x\<rceil>)"

fun to_cint :: "cfloat \<Rightarrow> int option" where
  "to_cint NaN = None"
| "to_cint (Fin x) =
     (if INT_MIN \<le> c_trunc x \<and> c_trunc x \<le> INT_MAX then Some (c_trunc x) else None)"

subsection \<open>Single precision\<close>

definition pow2 :: "int \<Rightarrow> real" where
  "pow2 e = (if 0 \<le> e then 2 ^ nat e else 1 / 2 ^ nat (- e))"

text \<open>Rounding to the nearest integer, halfway cases to the even one.\<close>

definition rne :: "real \<Rightarrow> int" where
  "rne x = (let f = \<lfloor>x\<rfloor>; d = x - of_int f in
            if d < 1 / 2 then f
            else if 1 / 2 < d then f + 1
            else if even f then f else f + 1)"

text \<open>
  The exponent of a non-negative number in single precision: the largest \<open>e\<close> among
  \<open>n - 126\<close>, ..., \<open>- 125\<close> with \<open>pow2 e \<le> x\<close>, and \<open>- 126\<close> (the exponent of the
  subnormal numbers too) when there is none.
\<close>

fun float_exp :: "nat \<Rightarrow> real \<Rightarrow> int" where
  "float_exp 0 x = - 126"
| "float_exp (Suc n) x = (if pow2 (int n - 125) \<le> x then int n - 125 else float_exp n x)"

text \<open>
  Rounding to single precision (24 bits, exponents - 126 to 127, nearest, halfway
  cases to even). Overflow to infinity is left out.
\<close>

definition fl32 :: "real \<Rightarrow> real" where
  "fl32 x = (let e = float_exp 253 \<bar>x\<bar>; u = pow2 (e - 23) in u * of_int (rne (x / u)))"


text \<open>The conversion to \<^verbatim>\<open>float\<close> of a result, as an assignment to a \<^verbatim>\<open>float\<close> makes it.\<close>

fun to_float :: "cfloat \<Rightarrow> cfloat" where
  "to_float NaN = NaN"
| "to_float (Fin x) = Fin (fl32 x)"

subsection \<open>Configuration\<close>

definition ACTUATOR_7SEG :: int where "ACTUATOR_7SEG = 1"
definition ACTUATOR_BUZZ :: int where "ACTUATOR_BUZZ = 2"
definition ACTUATOR_LED :: int where "ACTUATOR_LED = 3"

definition SENSOR_BUTTON :: int where "SENSOR_BUTTON = 1"
definition SENSOR_LIGHT :: int where "SENSOR_LIGHT = 2"
definition SENSOR_ROTARY :: int where "SENSOR_ROTARY = 3"
definition SENSOR_ULTRASONIC :: int where "SENSOR_ULTRASONIC = 4"
definition SENSOR_DHT_HUMIDITY :: int where "SENSOR_DHT_HUMIDITY = 5"
definition SENSOR_DHT_TEMPERATURE :: int where "SENSOR_DHT_TEMPERATURE = 6"

definition INTERVAL :: int where "INTERVAL = 10"
definition PUBLISH_WAIT :: int where "PUBLISH_WAIT = 100"
definition TEMP_MIN :: int where "TEMP_MIN = 10"
definition TEMP_RANGE :: int where "TEMP_RANGE = 20"

datatype pin = D2 | D3 | D4 | D5 | A0 | A2 | A4

definition SENSOR_BUTTON_PIN :: pin where "SENSOR_BUTTON_PIN = D4"
definition SENSOR_LIGHT_PIN :: pin where "SENSOR_LIGHT_PIN = A4"
definition SENSOR_ROTARY_PIN :: pin where "SENSOR_ROTARY_PIN = A2"
definition ACTUATOR_BUZZ_PIN :: pin where "ACTUATOR_BUZZ_PIN = A0"

text \<open>
  Modelled from the spec: the level \<^verbatim>\<open>HIGH\<close> comes from \<^verbatim>\<open>Particle.h\<close>, which is not
  part of the source; the spec calls it the asserted level of a boolean reading.
\<close>

definition HIGH :: int where "HIGH = 1"

text \<open>
  The selection \<^verbatim>\<open>SENSOR\<close>, \<^verbatim>\<open>ACTUATOR\<close>, \<^verbatim>\<open>REVERSE\<close> is three constants of the sketch,
  meant to be edited: the model takes them as a record. \<open>default_config\<close> is the
  selection of the source as it stands.
\<close>

record config =
  SENSOR :: int
  ACTUATOR :: int
  REVERSE :: bool

definition default_config :: config where
  "default_config = \<lparr>SENSOR = SENSOR_ROTARY, ACTUATOR = ACTUATOR_BUZZ, REVERSE = False\<rparr>"

subsection \<open>State, inputs and events\<close>

text \<open>
  The two globals, with their initial values: \<^verbatim>\<open>SensorValue\<close> starts at 0 and the counter
  at the window \<^verbatim>\<open>PUBLISH_WAIT\<close>, which \<open>initial\<close> takes as a parameter.
\<close>

record state =
  SensorValue :: cfloat
  PublishWaitCount :: int

definition initial :: "int \<Rightarrow> state" where
  "initial W = \<lparr>SensorValue = Fin 0, PublishWaitCount = W\<rparr>"

definition init_state :: state where
  "init_state = initial PUBLISH_WAIT"

text \<open>What the hardware answers during one cycle.\<close>

record hw_in =
  digital :: int
  analog :: int
  centimeters :: int
  humidity :: cfloat
  temperature :: cfloat

datatype event =
    DigitalRead pin
  | AnalogRead pin
  | MeasureInCentimeters
  | ReadHumidity
  | ReadTemperature
  | Publish cfloat
  | Display int int
  | AnalogWrite pin cfloat
  | SetColorRGB int int int int
  | Delay int

datatype error = UndefinedConversion

subsection \<open>Publishing\<close>

text \<open>
  \<^verbatim>\<open>publishNumber\<close>, with the window as a parameter. The counter is a C \<^verbatim>\<open>int\<close>; it is
  modelled as an unbounded integer, and \<open>count_bounded\<close> below shows that it stays
  between 0 and the window, so that the increment never overflows.
\<close>

definition publishNumber :: "int \<Rightarrow> cfloat \<Rightarrow> state \<Rightarrow> state \<times> event list" where
  "publishNumber W number s =
     (let c = PublishWaitCount s + 1 in
      if c > W then (s\<lparr>PublishWaitCount := 0\<rparr>, [Publish number])
      else (s\<lparr>PublishWaitCount := c\<rparr>, []))"

text \<open>A sequence of calls, one per number, with what each call sent.\<close>

fun publish_calls :: "int \<Rightarrow> cfloat list \<Rightarrow> state \<Rightarrow> state \<times> event list list" where
  "publish_calls W [] s = (s, [])"
| "publish_calls W (x # xs) s =
     (let (s1, e) = publishNumber W x s;
          (s2, es) = publish_calls W xs s1
      in (s2, e # es))"

subsection \<open>Sensor read functions\<close>

text \<open>Each function takes what its hardware call returned.\<close>

definition readButton :: "int \<Rightarrow> cfloat" where
  "readButton level = (if level = HIGH then Fin 1 else Fin 0)"

definition readDhtHumidity :: "cfloat \<Rightarrow> cfloat \<Rightarrow> cfloat" where
  "readDhtHumidity reading previousValue =
     (let value = reading in
      if isnan value then previousValue else fdiv value (Fin 100))"

definition readDhtTemperature :: "cfloat \<Rightarrow> cfloat \<Rightarrow> cfloat" where
  "readDhtTemperature reading previousValue =
     (let value = reading in
      if isnan value then previousValue
      else
        let value = fsub value (of_cint TEMP_MIN);
            value = fdiv value (of_cint TEMP_RANGE)
        in if flt value (Fin 0) then Fin 0 else (if fgt value (Fin 1) then Fin 1 else value))"

definition readLight :: "int \<Rightarrow> cfloat" where
  "readLight raw =
     (let value = fsub (Fin 1) (fdiv (of_cint raw) (Fin 1023))
      in if flt value (Fin 0) then Fin 0 else (if fgt value (Fin 1) then Fin 1 else value))"

definition readRotary :: "int \<Rightarrow> cfloat" where
  "readRotary raw =
     (let value = of_cint raw;
          value = (if flt value (Fin 26) then Fin 0 else value)
      in fdiv value (Fin 4096))"

definition readUltrasonic :: "int \<Rightarrow> cfloat" where
  "readUltrasonic cm =
     (let range = fdiv (of_cint cm) (Fin 100);
          range = (if fgt range (Fin 1) then Fin 1 else (if flt range (Fin 0) then Fin 0 else range))
      in range)"

subsection \<open>Actuator write functions\<close>

definition write7Seg :: "cfloat \<Rightarrow> error + event list" where
  "write7Seg value =
     (case to_cint (fround (fdiv (fmul value (Fin 100000)) (Fin 10))) of
        None \<Rightarrow> Inl UndefinedConversion
      | Some displayValue0 \<Rightarrow>
          let displayValue =
                (if displayValue0 > 9999 then 9999
                 else (if displayValue0 < 0 then 0 else displayValue0))
          in Inr [Display 0 ((displayValue sdiv 1000) smod 10),
                  Display 1 ((displayValue sdiv 100) smod 10),
                  Display 2 ((displayValue sdiv 10) smod 10),
                  Display 3 (displayValue smod 10)])"

text \<open>
  The part of \<^verbatim>\<open>write7Seg\<close> after the conversion, for any \<^verbatim>\<open>int\<close> that the conversion
  yields: the clamp and the four calls of \<^verbatim>\<open>tm1637.display\<close>.
\<close>

definition show_digits :: "int \<Rightarrow> event list" where
  "show_digits displayValue0 =
     (let displayValue =
            (if displayValue0 > 9999 then 9999
             else (if displayValue0 < 0 then 0 else displayValue0))
      in [Display 0 ((displayValue sdiv 1000) smod 10),
          Display 1 ((displayValue sdiv 100) smod 10),
          Display 2 ((displayValue sdiv 10) smod 10),
          Display 3 (displayValue smod 10)])"

text \<open>
  \<^verbatim>\<open>analogWrite\<close> is declared outside the source: the event keeps the \<^verbatim>\<open>float\<close> that
  the sketch hands over.
\<close>

definition writeBuzz :: "cfloat \<Rightarrow> error + event list" where
  "writeBuzz value0 =
     (let value = to_float (fmul value0 (Fin 255));
          value = (if flt value (Fin 0) then Fin 0
                   else (if fgt value (Fin 255) then Fin 255 else value))
      in Inr [AnalogWrite ACTUATOR_BUZZ_PIN value])"

definition writeLed :: "cfloat \<Rightarrow> error + event list" where
  "writeLed value0 =
     (let value = to_float (fmul value0 (Fin 255));
          value = (if flt value (Fin 0) then Fin 0
                   else (if fgt value (Fin 255) then Fin 255 else value))
      in case to_cint value of
           None \<Rightarrow> Inl UndefinedConversion
         | Some c \<Rightarrow> Inr [SetColorRGB 0 c c c])"

subsection \<open>The cycle\<close>

text \<open>
  The first \<^verbatim>\<open>switch\<close> of \<^verbatim>\<open>loop\<close>: the new \<^verbatim>\<open>SensorValue\<close> and the hardware call made.
  A selection outside 1..6 reads nothing and keeps the value.
\<close>

definition read_sensor :: "config \<Rightarrow> hw_in \<Rightarrow> cfloat \<Rightarrow> cfloat \<times> event list" where
  "read_sensor cfg inp sv =
     (if SENSOR cfg = SENSOR_BUTTON then (readButton (digital inp), [DigitalRead SENSOR_BUTTON_PIN])
      else if SENSOR cfg = SENSOR_DHT_HUMIDITY then (readDhtHumidity (humidity inp) sv, [ReadHumidity])
      else if SENSOR cfg = SENSOR_DHT_TEMPERATURE then
        (readDhtTemperature (temperature inp) sv, [ReadTemperature])
      else if SENSOR cfg = SENSOR_LIGHT then (readLight (analog inp), [AnalogRead SENSOR_LIGHT_PIN])
      else if SENSOR cfg = SENSOR_ROTARY then (readRotary (analog inp), [AnalogRead SENSOR_ROTARY_PIN])
      else if SENSOR cfg = SENSOR_ULTRASONIC then
        (readUltrasonic (centimeters inp), [MeasureInCentimeters])
      else (sv, []))"

text \<open>The second \<^verbatim>\<open>switch\<close>: a selection outside 1..3 writes nothing.\<close>

definition write_actuator :: "config \<Rightarrow> cfloat \<Rightarrow> error + event list" where
  "write_actuator cfg sv =
     (if ACTUATOR cfg = ACTUATOR_7SEG then write7Seg sv
      else if ACTUATOR cfg = ACTUATOR_BUZZ then writeBuzz sv
      else if ACTUATOR cfg = ACTUATOR_LED then writeLed sv
      else Inr [])"

text \<open>The reversal \<^verbatim>\<open>if (REVERSE) SensorValue = 1 - SensorValue\<close>, a \<^verbatim>\<open>float\<close> subtraction.\<close>

definition apply_reverse :: "config \<Rightarrow> cfloat \<Rightarrow> cfloat" where
  "apply_reverse cfg sv = (if REVERSE cfg then to_float (fsub (Fin 1) sv) else sv)"

text \<open>
  The rest of \<^verbatim>\<open>loop\<close> after the first \<^verbatim>\<open>switch\<close>, from the value \<open>sv\<close> that the sensor
  read function returned: the reversal, the write to the actuator and the delay. The
  call of \<^verbatim>\<open>publishNumber\<close> is a comment in the source, so the cycle does not make it.
\<close>

definition route :: "config \<Rightarrow> cfloat \<Rightarrow> state \<Rightarrow> error + state \<times> event list" where
  "route cfg sv0 s =
     (let sv = apply_reverse cfg sv0;
          s' = s\<lparr>SensorValue := sv\<rparr>
      in case write_actuator cfg sv of
           Inl e \<Rightarrow> Inl e
         | Inr writes \<Rightarrow> Inr (s', writes @ [Delay INTERVAL]))"

text \<open>One run of \<^verbatim>\<open>loop\<close>.\<close>

definition loop :: "config \<Rightarrow> hw_in \<Rightarrow> state \<Rightarrow> error + state \<times> event list" where
  "loop cfg inp s =
     (let (sv, reads) = read_sensor cfg inp (SensorValue s)
      in case route cfg sv s of
           Inl e \<Rightarrow> Inl e
         | Inr (s', tr) \<Rightarrow> Inr (s', reads @ tr))"

subsection \<open>The properties, as predicates\<close>

text \<open>A normalised value: a number between 0 and 1.\<close>

fun canonical :: "cfloat \<Rightarrow> bool" where
  "canonical NaN = False"
| "canonical (Fin x) = (0 \<le> x \<and> x \<le> 1)"

text \<open>
  What the devices accept: a digit 0..9 at a position 0..3 of the display, a duty between
  0 and 255, colour channels between 0 and 255.
\<close>

fun in_device_range :: "event \<Rightarrow> bool" where
  "in_device_range (Display pos d) = (0 \<le> pos \<and> pos \<le> 3 \<and> 0 \<le> d \<and> d \<le> 9)"
| "in_device_range (AnalogWrite p NaN) = False"
| "in_device_range (AnalogWrite p (Fin x)) = (0 \<le> x \<and> x \<le> 255)"
| "in_device_range (SetColorRGB i r g b) =
     (0 \<le> r \<and> r \<le> 255 \<and> 0 \<le> g \<and> g \<le> 255 \<and> 0 \<le> b \<and> b \<le> 255)"
| "in_device_range _ = True"

fun safe_write :: "error + event list \<Rightarrow> bool" where
  "safe_write (Inl e) = False"
| "safe_write (Inr evs) = list_all in_device_range evs"

fun is_read :: "event \<Rightarrow> bool" where
  "is_read (DigitalRead p) = True"
| "is_read (AnalogRead p) = True"
| "is_read MeasureInCentimeters = True"
| "is_read ReadHumidity = True"
| "is_read ReadTemperature = True"
| "is_read _ = False"

fun is_write :: "event \<Rightarrow> bool" where
  "is_write (Display pos d) = True"
| "is_write (AnalogWrite p v) = True"
| "is_write (SetColorRGB i r g b) = True"
| "is_write _ = False"

fun is_publish :: "event \<Rightarrow> bool" where
  "is_publish (Publish v) = True"
| "is_publish _ = False"

text \<open>
  The number on the display as the specification words it: the value times 10000,
  rounded, then clamped to 0..9999.
\<close>

definition spec_display_value :: "real \<Rightarrow> int" where
  "spec_display_value x = max 0 (min 9999 (c_round (x * 10000)))"

section \<open>Sensor read functions\<close>

lemmas config_consts = SENSOR_BUTTON_def SENSOR_LIGHT_def SENSOR_ROTARY_def SENSOR_ULTRASONIC_def
  SENSOR_DHT_HUMIDITY_def SENSOR_DHT_TEMPERATURE_def ACTUATOR_7SEG_def ACTUATOR_BUZZ_def
  ACTUATOR_LED_def

lemma readButton_canonical: "canonical (readButton level)"
  by (simp add: readButton_def)

lemma readLight_canonical: "canonical (readLight raw)"
  by (simp add: readLight_def of_cint_def Let_def)

lemma readUltrasonic_canonical: "canonical (readUltrasonic cm)"
  by (simp add: readUltrasonic_def of_cint_def Let_def)

lemma readDhtTemperature_canonical: "canonical (readDhtTemperature (Fin t) p)"
  by (simp add: readDhtTemperature_def of_cint_def Let_def)

lemma readDhtTemperature_NaN: "readDhtTemperature NaN p = p"
  by (simp add: readDhtTemperature_def)

lemma readDhtHumidity_NaN: "readDhtHumidity NaN p = p"
  by (simp add: readDhtHumidity_def)

lemma readDhtHumidity_Fin: "readDhtHumidity (Fin h) p = Fin (h / 100)"
  by (simp add: readDhtHumidity_def)

lemma readRotary_eq: "readRotary raw = Fin (if raw < 26 then 0 else of_int raw / 4096)"
  by (simp add: readRotary_def of_cint_def Let_def)

lemma readRotary_canonical_iff: "canonical (readRotary raw) = (raw \<le> 4096)"
  by (auto simp add: readRotary_eq)

lemma readDhtHumidity_canonical_iff:
  "canonical (readDhtHumidity (Fin h) p) = (0 \<le> h \<and> h \<le> 100)"
  by (simp add: readDhtHumidity_Fin)




text \<open>
  C6: when the probe returns the invalid marker, \<^verbatim>\<open>readDhtHumidity\<close> and
  \<^verbatim>\<open>readDhtTemperature\<close> return their \<open>previousValue\<close> argument, whatever it is.
\<close>

theorem fallback_previousValue:
  "readDhtHumidity NaN previousValue = previousValue \<and>
   readDhtTemperature NaN previousValue = previousValue"
  by (simp add: readDhtHumidity_def readDhtTemperature_def)

text \<open>
  C7: on a raw reading of its documented domain (any level for the button, 0..1023 for
  light, 0..4096 for the rotary sensor, any distance, 0..100 percent or the invalid
  marker for humidity, any temperature or the invalid marker), with \<open>previousValue\<close> in
  [0,1], every sensor read function returns a value in [0,1].
\<close>

theorem calibration_in_domain:
  assumes "0 \<le> light" "light \<le> 1023" "0 \<le> rotary" "rotary \<le> 4096"
    and "0 \<le> percent" "percent \<le> 100" "canonical previousValue"
  shows "canonical (readButton level) \<and>
         canonical (readLight light) \<and>
         canonical (readRotary rotary) \<and>
         canonical (readUltrasonic cm) \<and>
         canonical (readDhtHumidity (Fin percent) previousValue) \<and>
         canonical (readDhtHumidity NaN previousValue) \<and>
         canonical (readDhtTemperature (Fin celsius) previousValue) \<and>
         canonical (readDhtTemperature NaN previousValue)"
  using assms
  by (simp add: readButton_canonical readLight_canonical readUltrasonic_canonical
      readDhtTemperature_canonical readDhtTemperature_NaN readDhtHumidity_NaN
      readRotary_canonical_iff readDhtHumidity_canonical_iff)

text \<open>C7 at the upper ends of the domains, where the results are the bounds themselves.\<close>

theorem calibration_in_domain_witness:
  "(0::int) \<le> 1023 \<and> (1023::int) \<le> 1023 \<and> (0::int) \<le> 4096 \<and> (4096::int) \<le> 4096 \<and>
   (0::real) \<le> 100 \<and> (100::real) \<le> 100 \<and> canonical (Fin 1) \<and>
   readButton 1 = Fin 1 \<and> readLight 1023 = Fin 0 \<and> readRotary 4096 = Fin 1 \<and>
   readUltrasonic 250 = Fin 1 \<and> readDhtHumidity (Fin 100) (Fin 1) = Fin 1 \<and>
   canonical (readButton 1) \<and> canonical (readLight 1023) \<and> canonical (readRotary 4096) \<and>
   canonical (readUltrasonic 250) \<and> canonical (readDhtHumidity (Fin 100) (Fin 1)) \<and>
   canonical (readDhtHumidity NaN (Fin 1)) \<and> canonical (readDhtTemperature (Fin 45) (Fin 1)) \<and>
   canonical (readDhtTemperature NaN (Fin 1))"
  using calibration_in_domain [of 1023 4096 100 "Fin 1" 1 250 45]
  by (simp add: readButton_def HIGH_def readLight_def readRotary_def readUltrasonic_def
      readDhtHumidity_def of_cint_def)

text \<open>
  C10: \<^verbatim>\<open>readRotary\<close> returns 0 or at least 26/4096, for every raw reading, negative
  ones included.
\<close>

theorem readRotary_gap:
  "readRotary raw = Fin 0 \<or> (\<exists>x. readRotary raw = Fin x \<and> 26 / 4096 \<le> x)"
  by (simp add: readRotary_eq divide_le_cancel)

section \<open>Single precision\<close>

lemma pow2_powi: "pow2 e = 2 powi e"
  by (simp add: pow2_def power_int_def power_one_over)

lemma pow2_pos [simp]: "0 < pow2 e"
  by (simp add: pow2_powi)

lemma pow2_add: "pow2 (a + b) = pow2 a * pow2 b"
  by (simp add: pow2_powi power_int_add)

lemma pow2_diff: "pow2 (a - b) = pow2 a / pow2 b"
  by (simp add: pow2_powi power_int_diff)

lemma pow2_nat: "0 \<le> e \<Longrightarrow> pow2 e = of_int (2 ^ nat e)"
  by (simp add: pow2_def)

lemma pow2_mono: "a \<le> b \<Longrightarrow> pow2 a \<le> pow2 b"
  by (simp add: pow2_powi power_int_increasing)

lemma pow2_0 [simp]: "pow2 0 = 1"
  by (simp add: pow2_def)

lemma rne_of_int [simp]: "rne (of_int n) = n"
  by (simp add: rne_def)


lemma rne_le: "z \<le> of_int n \<Longrightarrow> rne z \<le> n"
proof -
  assume a: "z \<le> of_int n"
  have f: "of_int \<lfloor>z\<rfloor> \<le> z" by linarith
  show ?thesis
  proof (cases "z = of_int n")
    case True
    then show ?thesis by simp
  next
    case False
    with a have "z < of_int n" by simp
    then have "\<lfloor>z\<rfloor> < n" by (simp add: floor_less_iff)
    then have "\<lfloor>z\<rfloor> + 1 \<le> n" by simp
    then show ?thesis by (auto simp: rne_def Let_def)
  qed
qed

lemma rne_ge: "of_int n \<le> z \<Longrightarrow> n \<le> rne z"
proof -
  assume "of_int n \<le> z"
  then have "n \<le> \<lfloor>z\<rfloor>" by (simp add: le_floor_iff)
  then show ?thesis by (auto simp: rne_def Let_def)
qed

lemma float_exp_ge: "- 126 \<le> float_exp n x"
  by (induction n) auto

lemma float_exp_le: "x < pow2 (k + 1) \<Longrightarrow> - 126 \<le> k \<Longrightarrow> float_exp n x \<le> k"
proof (induction n)
  case 0
  then show ?case by simp
next
  case (Suc n)
  show ?case
  proof (cases "pow2 (int n - 125) \<le> x")
    case True
    then have "pow2 (int n - 125) < pow2 (k + 1)" using Suc.prems by simp
    then have "int n - 125 < k + 1"
      using pow2_mono [of "k + 1" "int n - 125"] by (cases "int n - 125 < k + 1") auto
    then show ?thesis using True by simp
  next
    case False
    then show ?thesis using Suc by simp
  qed
qed



lemma pow2_nonzero [simp]: "pow2 e \<noteq> 0"
  by (simp add: pow2_powi)

lemma pow2_nonneg [simp]: "0 \<le> pow2 e"
  by (simp add: less_imp_le)

lemma fl32_0 [simp]: "fl32 0 = 0"
  by (simp add: fl32_def rne_def)

text \<open>A number with a significand below 2^24 and an exponent from -149 on is not changed.\<close>

lemma fl32_representable:
  assumes "\<bar>m\<bar> < 2 ^ 24" "- 149 \<le> k"
  shows "fl32 (of_int m * pow2 k) = of_int m * pow2 k"
proof -
  let ?x = "of_int m * pow2 k :: real"
  let ?e = "float_exp 253 \<bar>?x\<bar>"
  have "\<bar>?x\<bar> = of_int \<bar>m\<bar> * pow2 k" by (simp add: abs_mult abs_of_pos)
  also have "\<dots> < of_int (2 ^ 24) * pow2 k"
    using assms(1) by (intro mult_strict_right_mono) (simp_all del: of_int_power of_int_numeral)
  also have "\<dots> = pow2 24 * pow2 k" by (simp add: pow2_def)
  also have "\<dots> = pow2 (24 + k)" by (simp only: pow2_add)
  finally have "\<bar>?x\<bar> < pow2 ((k + 23) + 1)" by (simp add: add.commute add.assoc)
  then have "?e \<le> k + 23" using assms(2) by (intro float_exp_le) simp_all
  then have d: "0 \<le> k - (?e - 23)" by simp
  have "?x / pow2 (?e - 23) = of_int m * pow2 (k - (?e - 23))"
    by (simp add: pow2_diff)
  also have "\<dots> = of_int (m * 2 ^ nat (k - (?e - 23)))"
    using d by (simp add: pow2_nat)
  finally have "rne (?x / pow2 (?e - 23)) = m * 2 ^ nat (k - (?e - 23))"
    by (simp only: rne_of_int)
  then have "fl32 ?x = pow2 (?e - 23) * of_int (m * 2 ^ nat (k - (?e - 23)))"
    by (simp add: fl32_def Let_def)
  also have "\<dots> = pow2 (?e - 23) * (of_int m * pow2 (k - (?e - 23)))"
    using d by (simp add: pow2_nat)
  also have "\<dots> = ?x" by (simp add: pow2_diff)
  finally show ?thesis .
qed

lemma fl32_of_int: "\<bar>m\<bar> < 2 ^ 24 \<Longrightarrow> fl32 (of_int m) = of_int m"
  using fl32_representable [of m 0] by simp

lemma fl32_1 [simp]: "fl32 1 = 1"
  using fl32_of_int [of 1] by simp

lemma fl32_unit_interval:
  assumes "0 \<le> y" "y \<le> 1"
  shows "0 \<le> fl32 y \<and> fl32 y \<le> 1"
proof -
  let ?e = "float_exp 253 \<bar>y\<bar>"
  let ?u = "pow2 (?e - 23)"
  have "\<bar>y\<bar> < pow2 (0 + 1)" using assms by (simp add: pow2_def)
  then have e: "?e \<le> 0" by (intro float_exp_le) simp_all
  have "of_int 0 \<le> y / ?u" using assms by (simp add: zero_le_divide_iff)
  then have lo: "0 \<le> rne (y / ?u)" by (rule rne_ge)
  have inv: "1 / ?u = of_int (2 ^ nat (23 - ?e))"
  proof -
    have "1 / ?u = pow2 (0 - (?e - 23))" by (simp only: pow2_diff pow2_0)
    also have "\<dots> = of_int (2 ^ nat (23 - ?e))" using e by (simp add: pow2_nat)
    finally show ?thesis .
  qed
  have "y / ?u \<le> 1 / ?u" using assms by (simp add: divide_right_mono)
  then have "rne (y / ?u) \<le> 2 ^ nat (23 - ?e)" unfolding inv by (rule rne_le)
  then have "of_int (rne (y / ?u)) \<le> (of_int (2 ^ nat (23 - ?e)) :: real)"
    by (simp only: of_int_le_iff)
  then have "?u * of_int (rne (y / ?u)) \<le> ?u * (1 / ?u)"
    unfolding inv [symmetric] by (intro mult_left_mono) simp_all
  then have hi: "?u * of_int (rne (y / ?u)) \<le> 1" by simp
  have "0 \<le> ?u * of_int (rne (y / ?u))" using lo by simp
  then show ?thesis using hi by (simp add: fl32_def Let_def)
qed




section \<open>Actuator write functions\<close>

subsection \<open>Conversions and digits\<close>

lemma sdiv_nonneg: "0 \<le> k \<Longrightarrow> 0 < l \<Longrightarrow> k sdiv l = k div (l::int)"
  by (simp add: signed_divide_int_def sgn_if)

lemma smod_nonneg: "0 \<le> k \<Longrightarrow> 0 < l \<Longrightarrow> k smod l = k mod (l::int)"
  by (simp add: signed_modulo_int_def sgn_if)

lemma c_trunc_of_int [simp]: "c_trunc (of_int n) = n"
  by (simp add: c_trunc_def)

lemma to_cint_of_int:
  "to_cint (Fin (of_int n)) = (if INT_MIN \<le> n \<and> n \<le> INT_MAX then Some n else None)"
  by simp

lemma c_round_le: "x \<le> of_int n \<Longrightarrow> c_round x \<le> n"
  unfolding c_round_def by (auto simp: floor_le_iff ceiling_le_iff)

lemma c_round_ge: "of_int n \<le> x \<Longrightarrow> n \<le> c_round x"
  unfolding c_round_def by (auto simp: le_floor_iff le_ceiling_iff)

lemma c_trunc_nonneg: "0 \<le> x \<Longrightarrow> 0 \<le> c_trunc x"
  by (simp add: c_trunc_def)

lemma c_trunc_le: "0 \<le> x \<Longrightarrow> x \<le> of_int n \<Longrightarrow> c_trunc x \<le> n"
  unfolding c_trunc_def by (auto simp: floor_le_iff)

lemma mod10_le9: "(k::int) mod 10 \<le> 9"
  using pos_mod_bound [of 10 k] by simp

text \<open>The four digits of a number below 10000 give the number back.\<close>

lemma digits_of:
  fixes d :: int
  assumes "0 \<le> d" "d \<le> 9999"
  shows "1000 * (d div 1000 mod 10) + 100 * (d div 100 mod 10) + 10 * (d div 10 mod 10)
           + d mod 10 = d"
proof -
  have "d div 1000 < 10" using assms by simp
  moreover have "0 \<le> d div 1000" using assms by simp
  ultimately have a: "d div 1000 mod 10 = d div 1000" by simp
  have b: "d div 100 mod 10 = d div 100 - 10 * (d div 1000)"
    by (simp add: minus_mult_div_eq_mod [symmetric] div_mult2_eq [symmetric])
  have c: "d div 10 mod 10 = d div 10 - 10 * (d div 100)"
    by (simp add: minus_mult_div_eq_mod [symmetric] div_mult2_eq [symmetric])
  have e: "d mod 10 = d - 10 * (d div 10)"
    by (simp add: minus_mult_div_eq_mod [symmetric])
  show ?thesis unfolding a b c e by simp
qed

subsection \<open>The display\<close>

text \<open>
  \<^verbatim>\<open>write7Seg\<close> on a number: the conversion to \<^verbatim>\<open>int\<close> comes before the clamp, so it
  is defined only while the rounded product is an \<^verbatim>\<open>int\<close>.
\<close>

lemma write7Seg_Fin:
  "write7Seg (Fin x) =
     (let r = c_round (x * 10000) in
      if INT_MIN \<le> r \<and> r \<le> INT_MAX then
        Inr [Display 0 (spec_display_value x div 1000 mod 10),
             Display 1 (spec_display_value x div 100 mod 10),
             Display 2 (spec_display_value x div 10 mod 10),
             Display 3 (spec_display_value x mod 10)]
      else Inl UndefinedConversion)"
proof -
  have d: "0 \<le> spec_display_value x" by (simp add: spec_display_value_def)
  have clamp: "(if c_round (x * 10000) > 9999 then 9999
                 else (if c_round (x * 10000) < 0 then 0 else c_round (x * 10000)))
               = spec_display_value x"
    by (simp add: spec_display_value_def max_def min_def)
  have sc: "x * 100000 / 10 = x * 10000" by simp
  show ?thesis
    unfolding write7Seg_def fmul.simps fdiv.simps fround.simps sc to_cint_of_int Let_def
    using d by (simp add: clamp sdiv_nonneg smod_nonneg del: to_cint.simps)
qed

lemma safe_write7Seg_iff:
  "safe_write (write7Seg (Fin x)) =
     (INT_MIN \<le> c_round (x * 10000) \<and> c_round (x * 10000) \<le> INT_MAX)"
  by (simp add: write7Seg_Fin Let_def mod10_le9)

lemma safe_write7Seg_canonical:
  assumes "canonical v"
  shows "safe_write (write7Seg v)"
proof (cases v)
  case NaN
  with assms show ?thesis by simp
next
  case (Fin x)
  with assms have "of_int 0 \<le> x * 10000" "x * 10000 \<le> of_int 10000" by simp_all
  then have "0 \<le> c_round (x * 10000)" "c_round (x * 10000) \<le> 10000"
    using c_round_ge c_round_le by blast+
  then show ?thesis using Fin by (simp add: safe_write7Seg_iff INT_MIN_def INT_MAX_def)
qed

text \<open>Whatever \<^verbatim>\<open>int\<close> the conversion yields, the clamp leaves digits 0..9.\<close>

lemma show_digits_range: "list_all in_device_range (show_digits n)"
proof -
  define d where "d = (if n > 9999 then 9999 else (if n < 0 then 0 else n))"
  have d: "0 \<le> d" by (simp add: d_def)
  have "show_digits n =
          [Display 0 (d div 1000 mod 10), Display 1 (d div 100 mod 10),
           Display 2 (d div 10 mod 10), Display 3 (d mod 10)]"
    using d by (simp add: show_digits_def Let_def d_def [symmetric] sdiv_nonneg smod_nonneg)
  then show ?thesis by (simp add: mod10_le9)
qed

lemma write7Seg_show_digits:
  "write7Seg v =
     (case to_cint (fround (fdiv (fmul v (Fin 100000)) (Fin 10))) of
        None \<Rightarrow> Inl UndefinedConversion
      | Some k \<Rightarrow> Inr (show_digits k))"
  by (simp add: write7Seg_def show_digits_def split: option.splits)

lemma write7Seg_range: "write7Seg v = Inr evs \<Longrightarrow> list_all in_device_range evs"
  using show_digits_range by (auto simp: write7Seg_show_digits split: option.splits)

text \<open>
  C4, as the code has it: \<^verbatim>\<open>write7Seg\<close> shows 9,9,9,9 for 1.0 and 0,0,0,0 for 0.0; for
  0.12345 it shows 1,2,3,5, because \<^verbatim>\<open>round\<close> takes 1234.5 to 1235. In general, while the
  rounded product is an \<^verbatim>\<open>int\<close>, the four digits shown at positions 0..3 are the decimal
  digits, most significant first, of the value times 10000, rounded to the nearest
  integer (halves away from zero) and clamped to 0..9999.
\<close>

theorem write7Seg_digits:
  "write7Seg (Fin 1) = Inr [Display 0 9, Display 1 9, Display 2 9, Display 3 9] \<and>
   write7Seg (Fin 0) = Inr [Display 0 0, Display 1 0, Display 2 0, Display 3 0] \<and>
   write7Seg (Fin (12345 / 100000)) = Inr [Display 0 1, Display 1 2, Display 2 3, Display 3 5] \<and>
   (INT_MIN \<le> c_round (x * 10000) \<and> c_round (x * 10000) \<le> INT_MAX \<longrightarrow>
      (\<exists>a b c d.
         write7Seg (Fin x) = Inr [Display 0 a, Display 1 b, Display 2 c, Display 3 d] \<and>
         0 \<le> a \<and> a \<le> 9 \<and> 0 \<le> b \<and> b \<le> 9 \<and> 0 \<le> c \<and> c \<le> 9 \<and> 0 \<le> d \<and> d \<le> 9 \<and>
         1000 * a + 100 * b + 10 * c + d = spec_display_value x))"
proof -
  have one: "write7Seg (Fin 1) = Inr [Display 0 9, Display 1 9, Display 2 9, Display 3 9]"
    by (simp add: write7Seg_Fin spec_display_value_def c_round_def INT_MIN_def INT_MAX_def)
  have zero: "write7Seg (Fin 0) = Inr [Display 0 0, Display 1 0, Display 2 0, Display 3 0]"
    by (simp add: write7Seg_Fin spec_display_value_def c_round_def INT_MIN_def INT_MAX_def)
  have tie: "write7Seg (Fin (12345 / 100000)) =
               Inr [Display 0 1, Display 1 2, Display 2 3, Display 3 5]"
    by (simp add: write7Seg_Fin spec_display_value_def c_round_def INT_MIN_def INT_MAX_def)
  have range: "0 \<le> spec_display_value x" "spec_display_value x \<le> 9999"
    by (simp_all add: spec_display_value_def)
  have sum: "1000 * (spec_display_value x div 1000 mod 10) +
             100 * (spec_display_value x div 100 mod 10) +
             10 * (spec_display_value x div 10 mod 10) +
             spec_display_value x mod 10 = spec_display_value x"
    using range by (rule digits_of)
  have gen: "\<exists>a b c d.
         write7Seg (Fin x) = Inr [Display 0 a, Display 1 b, Display 2 c, Display 3 d] \<and>
         0 \<le> a \<and> a \<le> 9 \<and> 0 \<le> b \<and> b \<le> 9 \<and> 0 \<le> c \<and> c \<le> 9 \<and> 0 \<le> d \<and> d \<le> 9 \<and>
         1000 * a + 100 * b + 10 * c + d = spec_display_value x"
    if "INT_MIN \<le> c_round (x * 10000)" "c_round (x * 10000) \<le> INT_MAX"
  proof (intro exI conjI)
    show "write7Seg (Fin x) =
            Inr [Display 0 (spec_display_value x div 1000 mod 10),
                 Display 1 (spec_display_value x div 100 mod 10),
                 Display 2 (spec_display_value x div 10 mod 10),
                 Display 3 (spec_display_value x mod 10)]"
      using that by (simp add: write7Seg_Fin)
    show "1000 * (spec_display_value x div 1000 mod 10) +
          100 * (spec_display_value x div 100 mod 10) +
          10 * (spec_display_value x div 10 mod 10) +
          spec_display_value x mod 10 = spec_display_value x"
      by (rule sum)
  qed (simp_all add: mod10_le9)
  from one zero tie gen show ?thesis by blast
qed

text \<open>C4 at a quarter: the display shows 2,5,0,0.\<close>

theorem write7Seg_digits_witness:
  "INT_MIN \<le> c_round (1 / 4 * 10000) \<and> c_round (1 / 4 * 10000) \<le> INT_MAX \<and>
   spec_display_value (1 / 4) = 2500 \<and>
   (\<exists>a b c d.
      write7Seg (Fin (1 / 4)) = Inr [Display 0 a, Display 1 b, Display 2 c, Display 3 d] \<and>
      0 \<le> a \<and> a \<le> 9 \<and> 0 \<le> b \<and> b \<le> 9 \<and> 0 \<le> c \<and> c \<le> 9 \<and> 0 \<le> d \<and> d \<le> 9 \<and>
      1000 * a + 100 * b + 10 * c + d = spec_display_value (1 / 4))"
proof -
  have r: "INT_MIN \<le> c_round (1 / 4 * 10000) \<and> c_round (1 / 4 * 10000) \<le> INT_MAX"
    by (simp add: c_round_def INT_MIN_def INT_MAX_def)
  have v: "spec_display_value (1 / 4) = 2500"
    by (simp add: spec_display_value_def c_round_def)
  note g = write7Seg_digits [of "1 / 4", THEN conjunct2, THEN conjunct2, THEN conjunct2,
      rule_format, OF r]
  from r v g show ?thesis by blast
qed

text \<open>
  C4 as stated fails at 0.12345: the display shows 1,2,3,5, not 1,2,3,4. The same holds
  for the single-precision number nearest to 0.12345, which is 16569179/134217728 and
  lies above it.
\<close>

theorem write7Seg_12345:
  "write7Seg (Fin (12345 / 100000)) = Inr [Display 0 1, Display 1 2, Display 2 3, Display 3 5] \<and>
   write7Seg (Fin (16569179 / 134217728)) =
     Inr [Display 0 1, Display 1 2, Display 2 3, Display 3 5]"
  by (simp add: write7Seg_Fin spec_display_value_def c_round_def INT_MIN_def INT_MAX_def)

subsection \<open>Buzzer and LED\<close>

lemma fl32_255 [simp]: "fl32 255 = 255"
  using fl32_of_int [of 255] by simp

lemma writeBuzz_Fin:
  "writeBuzz (Fin x) =
     Inr [AnalogWrite ACTUATOR_BUZZ_PIN (Fin (max 0 (min 255 (fl32 (x * 255)))))]"
  by (simp add: writeBuzz_def Let_def max_def min_def)

lemma clamp255_to_cint:
  "to_cint (Fin (max 0 (min 255 y))) = Some (c_trunc (max 0 (min 255 y)))"
proof -
  let ?v = "max 0 (min 255 y)"
  have "0 \<le> ?v" "?v \<le> of_int 255" by simp_all
  then have "0 \<le> c_trunc ?v" "c_trunc ?v \<le> 255"
    using c_trunc_nonneg c_trunc_le by blast+
  then show ?thesis by (simp add: INT_MIN_def INT_MAX_def)
qed

lemma writeLed_Fin:
  "writeLed (Fin x) =
     (let c = c_trunc (max 0 (min 255 (fl32 (x * 255)))) in Inr [SetColorRGB 0 c c c])"
proof -
  have "(if fl32 (x * 255) < 0 then Fin 0
         else if 255 < fl32 (x * 255) then Fin 255 else Fin (fl32 (x * 255)))
        = Fin (max 0 (min 255 (fl32 (x * 255))))"
    by (simp add: max_def min_def)
  then show ?thesis
    unfolding writeLed_def Let_def fmul.simps to_float.simps flt.simps fgt.simps
    by (simp add: clamp255_to_cint del: to_cint.simps)
qed

lemma safe_writeBuzz: "safe_write (writeBuzz (Fin x))"
  by (simp add: writeBuzz_Fin)

lemma safe_writeLed: "safe_write (writeLed (Fin x))"
proof -
  let ?v = "max 0 (min 255 (fl32 (x * 255)))"
  have "0 \<le> ?v" "?v \<le> of_int 255" by simp_all
  then have "0 \<le> c_trunc ?v" "c_trunc ?v \<le> 255"
    using c_trunc_nonneg c_trunc_le by blast+
  then show ?thesis by (simp add: writeLed_Fin Let_def)
qed

lemma writeLed_range: "writeLed v = Inr evs \<Longrightarrow> list_all in_device_range evs"
proof (cases v)
  case NaN
  then show "writeLed v = Inr evs \<Longrightarrow> list_all in_device_range evs"
    by (simp add: writeLed_def)
next
  case (Fin x)
  then show "writeLed v = Inr evs \<Longrightarrow> list_all in_device_range evs"
    using safe_writeLed [of x] by auto
qed

text \<open>
  C9, as the code has it: for every input that is a number, \<^verbatim>\<open>writeBuzz\<close> hands over a
  duty between 0 and 255 and \<^verbatim>\<open>writeLed\<close> three channels between 0 and 255.
  \<^verbatim>\<open>write7Seg\<close> clamps after its conversion to \<^verbatim>\<open>int\<close>: whatever \<^verbatim>\<open>int\<close> the conversion
  yields, the four digits written at positions 0..3 are between 0 and 9, for every
  input; the conversion itself is defined for every input of absolute value up to
  214748. Neither \<^verbatim>\<open>write7Seg\<close> nor \<^verbatim>\<open>writeLed\<close> ever returns an argument outside the
  device range.
\<close>

theorem write_in_device_range:
  "safe_write (writeBuzz (Fin x)) \<and> safe_write (writeLed (Fin x)) \<and>
   list_all in_device_range (show_digits n) \<and>
   write7Seg v =
     (case to_cint (fround (fdiv (fmul v (Fin 100000)) (Fin 10))) of
        None \<Rightarrow> Inl UndefinedConversion
      | Some k \<Rightarrow> Inr (show_digits k)) \<and>
   (\<forall>evs. write7Seg v = Inr evs \<longrightarrow> list_all in_device_range evs) \<and>
   (\<forall>evs. writeLed v = Inr evs \<longrightarrow> list_all in_device_range evs) \<and>
   (\<bar>x\<bar> \<le> 214748 \<longrightarrow> safe_write (write7Seg (Fin x)))"
proof -
  have "safe_write (write7Seg (Fin x))" if "\<bar>x\<bar> \<le> 214748"
  proof -
    from that have "of_int (- 2147480000) \<le> x * 10000" "x * 10000 \<le> of_int 2147480000"
      by simp_all
    then have "- 2147480000 \<le> c_round (x * 10000)" "c_round (x * 10000) \<le> 2147480000"
      using c_round_ge c_round_le by blast+
    then show ?thesis by (simp add: safe_write7Seg_iff INT_MIN_def INT_MAX_def)
  qed
  then show ?thesis
    using safe_writeBuzz [of x] safe_writeLed [of x] show_digits_range [of n]
      write7Seg_show_digits [of v] write7Seg_range [of v] writeLed_range [of v]
    by blast
qed

text \<open>
  C9 at inputs outside [0,1]: - 3 is clamped to duty 0 and 7 to full white; the
  smallest and the largest \<^verbatim>\<open>int\<close> are shown as 0,0,0,0 and 9,9,9,9.
\<close>

theorem write_in_device_range_witness:
  "\<bar>1 / 2\<bar> \<le> (214748::real) \<and> safe_write (write7Seg (Fin (1 / 2))) \<and>
   write7Seg (Fin (1 / 2)) = Inr (show_digits 5000) \<and>
   list_all in_device_range (show_digits 5000) \<and>
   safe_write (writeBuzz (Fin (- 3))) \<and> writeBuzz (Fin (- 3)) = Inr [AnalogWrite A0 (Fin 0)] \<and>
   safe_write (writeLed (Fin 7)) \<and> writeLed (Fin 7) = Inr [SetColorRGB 0 255 255 255] \<and>
   list_all in_device_range [SetColorRGB 0 255 255 255] \<and>
   list_all in_device_range (show_digits INT_MIN) \<and>
   show_digits INT_MIN = [Display 0 0, Display 1 0, Display 2 0, Display 3 0] \<and>
   show_digits INT_MAX = [Display 0 9, Display 1 9, Display 2 9, Display 3 9]"
proof -
  have w7: "write7Seg (Fin (1 / 2)) = Inr (show_digits 5000)"
    by (simp add: write7Seg_show_digits c_round_def c_trunc_def INT_MIN_def INT_MAX_def)
  have f1: "fl32 (- 765) = - 765" using fl32_of_int [of "- 765"] by simp
  have f2: "fl32 1785 = 1785" using fl32_of_int [of 1785] by simp
  have wb: "writeBuzz (Fin (- 3)) = Inr [AnalogWrite A0 (Fin 0)]"
    by (simp add: writeBuzz_Fin f1 ACTUATOR_BUZZ_PIN_def)
  have wl: "writeLed (Fin 7) = Inr [SetColorRGB 0 255 255 255]"
    by (simp add: writeLed_Fin f2 c_trunc_def)
  have lo: "show_digits INT_MIN = [Display 0 0, Display 1 0, Display 2 0, Display 3 0]"
    by (simp add: show_digits_def INT_MIN_def signed_divide_int_def signed_modulo_int_def)
  have hi: "show_digits INT_MAX = [Display 0 9, Display 1 9, Display 2 9, Display 3 9]"
    by (simp add: show_digits_def INT_MAX_def signed_divide_int_def signed_modulo_int_def)
  note a = write_in_device_range [of "1 / 2" 5000 "Fin (1 / 2)"]
  note b = write_in_device_range [of "- 3" INT_MIN "Fin 7"]
  note c = write_in_device_range [of 7 INT_MIN "Fin 7"]
  have r5: "list_all in_device_range (show_digits 5000)" using a w7 by blast
  have rl: "list_all in_device_range [SetColorRGB 0 255 255 255]" using b wl by blast
  have h: "\<bar>1 / 2\<bar> \<le> (214748::real)" by simp
  have s7: "safe_write (write7Seg (Fin (1 / 2)))" using a h by blast
  have sb: "safe_write (writeBuzz (Fin (- 3)))" using b by blast
  have sl: "safe_write (writeLed (Fin 7))" using c by blast
  have rm: "list_all in_device_range (show_digits INT_MIN)" using b by blast
  show ?thesis using h w7 wb wl lo hi r5 rl s7 sb sl rm by blast
qed

text \<open>
  C9 as stated fails at the not-a-number input of \<^verbatim>\<open>writeBuzz\<close>: both comparisons of the
  clamp are false, and the value is handed to \<^verbatim>\<open>analogWrite\<close> as it is.
\<close>

theorem write_NaN_unclamped:
  "writeBuzz NaN = Inr [AnalogWrite ACTUATOR_BUZZ_PIN NaN] \<and>
   \<not> in_device_range (AnalogWrite ACTUATOR_BUZZ_PIN NaN) \<and>
   \<not> safe_write (writeBuzz NaN)"
  by (simp add: writeBuzz_def)

section \<open>Publishing\<close>

lemma publishNumber_count:
  "PublishWaitCount (fst (publishNumber W x s)) =
     (if PublishWaitCount s + 1 > W then 0 else PublishWaitCount s + 1)"
  by (simp add: publishNumber_def Let_def)

lemma publishNumber_events:
  "snd (publishNumber W x s) = (if PublishWaitCount s + 1 > W then [Publish x] else [])"
  by (simp add: publishNumber_def Let_def)

lemma publish_calls_Cons:
  "snd (publish_calls W (x # xs) s) =
     snd (publishNumber W x s) # snd (publish_calls W xs (fst (publishNumber W x s)))"
  by (simp add: split_beta Let_def)

lemma full_window_mod:
  fixes c W :: int
  assumes "0 \<le> c" "c \<le> W"
  shows "((c + 1) mod (W + 1) = 0) = (c = W)"
proof (cases "c = W")
  case True
  then show ?thesis by simp
next
  case False
  with assms have "c + 1 < W + 1" "0 \<le> c + 1" by simp_all
  then have "(c + 1) mod (W + 1) = c + 1" by simp
  with False assms show ?thesis by simp
qed

text \<open>
  From a counter \<open>c\<close> between 0 and the window, the call number \<open>n\<close> (counted from 0)
  sends exactly when \<open>c + 1 + n\<close> is a multiple of \<open>W + 1\<close>.
\<close>

lemma publish_calls_nth:
  assumes "0 \<le> PublishWaitCount s" "PublishWaitCount s \<le> W" "n < length xs"
  shows "snd (publish_calls W xs s) ! n =
           (if (PublishWaitCount s + 1 + int n) mod (W + 1) = 0 then [Publish (xs ! n)] else [])"
  using assms
proof (induction xs arbitrary: s n)
  case Nil
  then show ?case by simp
next
  case (Cons x xs)
  let ?c = "PublishWaitCount s"
  let ?s1 = "fst (publishNumber W x s)"
  show ?case
  proof (cases n)
    case 0
    have "(?c + 1 > W) = (?c = W)" using Cons.prems by auto
    also have "\<dots> = ((?c + 1) mod (W + 1) = 0)"
      using full_window_mod [of ?c W] Cons.prems by simp
    finally show ?thesis
      using 0 by (simp add: publish_calls_Cons publishNumber_events del: publish_calls.simps)
  next
    case (Suc m)
    have c1: "PublishWaitCount ?s1 = (if ?c = W then 0 else ?c + 1)"
      using Cons.prems by (auto simp: publishNumber_count)
    have b: "0 \<le> PublishWaitCount ?s1" "PublishWaitCount ?s1 \<le> W"
      using Cons.prems c1 by auto
    have m: "m < length xs" using Cons.prems Suc by simp
    have same: "(PublishWaitCount ?s1 + 1 + int m) mod (W + 1) = (?c + 1 + int n) mod (W + 1)"
    proof (cases "?c = W")
      case True
      then have "?c + 1 + int n = (1 + int m) + (W + 1)" using Suc by simp
      then have "(?c + 1 + int n) mod (W + 1) = (1 + int m) mod (W + 1)"
        by (simp only: mod_add_self2)
      then show ?thesis using c1 True by (simp add: add.commute)
    next
      case False
      then show ?thesis using c1 Suc by (simp add: algebra_simps)
    qed
    show ?thesis
      using Cons.IH [OF b m] same Suc
      by (simp add: publish_calls_Cons del: publish_calls.simps)
  qed
qed

text \<open>The counter after a sequence of calls.\<close>

lemma publish_calls_count:
  assumes "0 \<le> PublishWaitCount s" "PublishWaitCount s \<le> W"
  shows "PublishWaitCount (fst (publish_calls W xs s)) =
           (PublishWaitCount s + int (length xs)) mod (W + 1)"
  using assms
proof (induction xs arbitrary: s)
  case Nil
  then show ?case by simp
next
  case (Cons x xs)
  let ?c = "PublishWaitCount s"
  let ?s1 = "fst (publishNumber W x s)"
  have c1: "PublishWaitCount ?s1 = (if ?c = W then 0 else ?c + 1)"
    using Cons.prems by (auto simp: publishNumber_count)
  have b: "0 \<le> PublishWaitCount ?s1" "PublishWaitCount ?s1 \<le> W"
    using Cons.prems c1 by auto
  have same: "(PublishWaitCount ?s1 + int (length xs)) mod (W + 1) =
              (?c + int (length (x # xs))) mod (W + 1)"
  proof (cases "?c = W")
    case True
    then have "?c + int (length (x # xs)) = int (length xs) + (W + 1)" by simp
    then have "(?c + int (length (x # xs))) mod (W + 1) = int (length xs) mod (W + 1)"
      by (simp only: mod_add_self2)
    then show ?thesis using c1 True by simp
  next
    case False
    then show ?thesis using c1 by (simp add: algebra_simps)
  qed
  have "fst (publish_calls W (x # xs) s) = fst (publish_calls W xs ?s1)"
    by (simp add: split_beta Let_def)
  then show ?case using Cons.IH [OF b] same by simp
qed

text \<open>
  The counter stays between 0 and the window: with a window below \<^verbatim>\<open>INT_MAX\<close> the
  increment of the C \<^verbatim>\<open>int\<close> does not overflow.
\<close>

lemma count_bounded:
  assumes "0 \<le> PublishWaitCount s" "PublishWaitCount s \<le> W"
  shows "0 \<le> PublishWaitCount (fst (publish_calls W xs s)) \<and>
         PublishWaitCount (fst (publish_calls W xs s)) \<le> W"
proof -
  let ?m = "(PublishWaitCount s + int (length xs)) mod (W + 1)"
  have p: "0 < W + 1" using assms by simp
  have "0 \<le> ?m" using p by (rule pos_mod_sign)
  moreover have "?m < W + 1" using p by (rule pos_mod_bound)
  ultimately show ?thesis using publish_calls_count [OF assms, of xs] by simp
qed

text \<open>
  C1, as the code has it: the counter starts at the window \<open>W\<close>, so the first call after
  the start sends; after that the calls send nothing \<open>W\<close> times and send on the next
  call, with period \<open>W + 1\<close>. Counting calls from 0, call \<open>n\<close> sends its number exactly
  when \<open>n\<close> is a multiple of \<open>W + 1\<close>, and the counter after it is \<open>n mod (W + 1)\<close>, which
  is zero after a call that sends.
\<close>

theorem publish_throttle_period:
  assumes "0 \<le> W" "W < INT_MAX" "n < length xs"
  shows "snd (publish_calls W xs (initial W)) ! n =
           (if int n mod (W + 1) = 0 then [Publish (xs ! n)] else []) \<and>
         PublishWaitCount (fst (publish_calls W (take (Suc n) xs) (initial W))) =
           int n mod (W + 1)"
proof -
  have m: "(W + 1 + int n) mod (W + 1) = int n mod (W + 1)"
    by (simp add: add.commute)
  have ev: "snd (publish_calls W xs (initial W)) ! n =
           (if int n mod (W + 1) = 0 then [Publish (xs ! n)] else [])"
    using publish_calls_nth [of "initial W" W n xs] assms m by (simp add: initial_def)
  have len: "int (length (take (Suc n) xs)) = int n + 1"
    using assms(3) by simp
  have "PublishWaitCount (fst (publish_calls W (take (Suc n) xs) (initial W))) =
          (W + (int n + 1)) mod (W + 1)"
    using publish_calls_count [of "initial W" W "take (Suc n) xs"] assms(1)
    unfolding len by (simp add: initial_def)
  also have "\<dots> = int n mod (W + 1)" using m by (simp add: algebra_simps)
  finally show ?thesis using ev by simp
qed

text \<open>C1 with a window of 2: the fourth call sends and leaves the counter at 0.\<close>

theorem publish_throttle_period_witness:
  "(0::int) \<le> 2 \<and> (2::int) < INT_MAX \<and> (3::nat) < length [Fin 0, Fin 1, Fin 2, Fin 3] \<and>
   snd (publish_calls 2 [Fin 0, Fin 1, Fin 2, Fin 3] (initial 2)) ! 3 = [Publish (Fin 3)] \<and>
   PublishWaitCount (fst (publish_calls 2 [Fin 0, Fin 1, Fin 2, Fin 3] (initial 2))) = 0"
  using publish_throttle_period [of 2 3 "[Fin 0, Fin 1, Fin 2, Fin 3]"]
  by (simp add: INT_MAX_def)

text \<open>
  C1 as stated fails: with the window of the source, the first call after the start
  already sends.
\<close>

theorem first_call_publishes:
  "snd (publish_calls PUBLISH_WAIT [Fin 0] init_state) = [[Publish (Fin 0)]]"
  by (simp add: publishNumber_def init_state_def initial_def PUBLISH_WAIT_def)

section \<open>The cycle\<close>

lemma read_sensor_events:
  "list_all is_read (snd (read_sensor cfg inp sv)) \<and> length (snd (read_sensor cfg inp sv)) \<le> 1"
  by (simp add: read_sensor_def)

text \<open>What the first \<^verbatim>\<open>switch\<close> does for each selection.\<close>

lemma read_sensor_selected:
  "(SENSOR cfg = SENSOR_BUTTON \<longrightarrow>
      read_sensor cfg inp sv = (readButton (digital inp), [DigitalRead SENSOR_BUTTON_PIN])) \<and>
   (SENSOR cfg = SENSOR_LIGHT \<longrightarrow>
      read_sensor cfg inp sv = (readLight (analog inp), [AnalogRead SENSOR_LIGHT_PIN])) \<and>
   (SENSOR cfg = SENSOR_ROTARY \<longrightarrow>
      read_sensor cfg inp sv = (readRotary (analog inp), [AnalogRead SENSOR_ROTARY_PIN])) \<and>
   (SENSOR cfg = SENSOR_ULTRASONIC \<longrightarrow>
      read_sensor cfg inp sv = (readUltrasonic (centimeters inp), [MeasureInCentimeters])) \<and>
   (SENSOR cfg = SENSOR_DHT_HUMIDITY \<longrightarrow>
      read_sensor cfg inp sv = (readDhtHumidity (humidity inp) sv, [ReadHumidity])) \<and>
   (SENSOR cfg = SENSOR_DHT_TEMPERATURE \<longrightarrow>
      read_sensor cfg inp sv = (readDhtTemperature (temperature inp) sv, [ReadTemperature])) \<and>
   (SENSOR cfg < 1 \<or> 6 < SENSOR cfg \<longrightarrow> read_sensor cfg inp sv = (sv, []))"
  by (simp add: read_sensor_def config_consts)

lemma write7Seg_events: "write7Seg v = Inr ws \<Longrightarrow> list_all is_write ws \<and> length ws = 4"
  by (auto simp: write7Seg_def Let_def split: option.splits)

lemma writeBuzz_events: "writeBuzz v = Inr ws \<Longrightarrow> list_all is_write ws \<and> length ws = 1"
  by (auto simp: writeBuzz_def Let_def)

lemma writeLed_events: "writeLed v = Inr ws \<Longrightarrow> list_all is_write ws \<and> length ws = 1"
  by (auto simp: writeLed_def Let_def split: option.splits)

text \<open>What the second \<^verbatim>\<open>switch\<close> does for each selection.\<close>

lemma write_actuator_selected:
  "(ACTUATOR cfg = ACTUATOR_7SEG \<longrightarrow> write_actuator cfg v = write7Seg v) \<and>
   (ACTUATOR cfg = ACTUATOR_BUZZ \<longrightarrow> write_actuator cfg v = writeBuzz v) \<and>
   (ACTUATOR cfg = ACTUATOR_LED \<longrightarrow> write_actuator cfg v = writeLed v) \<and>
   (ACTUATOR cfg < 1 \<or> 3 < ACTUATOR cfg \<longrightarrow> write_actuator cfg v = Inr [])"
  by (simp add: write_actuator_def config_consts)

lemma write_actuator_events: "write_actuator cfg v = Inr ws \<Longrightarrow> list_all is_write ws"
  using write7Seg_events [of v ws] writeBuzz_events [of v ws] writeLed_events [of v ws]
  by (auto simp: write_actuator_def split: if_splits)

lemma read_not_publish: "is_read e \<Longrightarrow> \<not> is_publish e"
  by (cases e) simp_all

lemma write_not_publish: "is_write e \<Longrightarrow> \<not> is_publish e"
  by (cases e) simp_all

lemma no_publish:
  assumes "list_all is_read rs" "list_all is_write ws"
  shows "\<not> list_ex is_publish (rs @ ws @ [Delay d])"
  using assms read_not_publish write_not_publish
  by (auto simp: list_all_iff list_ex_iff)

text \<open>A value in [0,1] is written without an undefined conversion.\<close>

lemma safe_write_actuator:
  assumes "canonical v"
  shows "safe_write (write_actuator cfg v)"
proof (cases v)
  case NaN
  with assms show ?thesis by simp
next
  case (Fin x)
  then show ?thesis
    using safe_write7Seg_canonical [OF assms] safe_writeBuzz [of x] safe_writeLed [of x]
    by (simp add: write_actuator_def)
qed

lemma safe_write_Inr: "safe_write r \<Longrightarrow> \<exists>ws. r = Inr ws"
  by (cases r) simp_all

lemma apply_reverse_Fin:
  "apply_reverse cfg (Fin x) = (if REVERSE cfg then Fin (fl32 (1 - x)) else Fin x)"
  by (simp add: apply_reverse_def)

lemma canonical_reverse: "canonical v \<Longrightarrow> canonical (apply_reverse cfg v)"
proof (cases v)
  case NaN
  then show "canonical v \<Longrightarrow> canonical (apply_reverse cfg v)" by simp
next
  case (Fin x)
  then show "canonical v \<Longrightarrow> canonical (apply_reverse cfg v)"
    using fl32_unit_interval [of "1 - x"] by (simp add: apply_reverse_Fin)
qed

lemma route_eq:
  "route cfg sv s =
     (case write_actuator cfg (apply_reverse cfg sv) of
        Inl e \<Rightarrow> Inl e
      | Inr writes \<Rightarrow>
          Inr (s\<lparr>SensorValue := apply_reverse cfg sv\<rparr>, writes @ [Delay INTERVAL]))"
  by (simp add: route_def Let_def)

lemma loop_eq:
  "loop cfg inp s =
     (case write_actuator cfg (apply_reverse cfg (fst (read_sensor cfg inp (SensorValue s)))) of
        Inl e \<Rightarrow> Inl e
      | Inr writes \<Rightarrow>
          Inr (s\<lparr>SensorValue := apply_reverse cfg (fst (read_sensor cfg inp (SensorValue s)))\<rparr>,
               snd (read_sensor cfg inp (SensorValue s)) @ writes @ [Delay INTERVAL]))"
  by (simp add: loop_def route_eq split_beta split: sum.splits)

text \<open>
  C2, as the code has it: a cycle whose sensor value is in [0,1] completes, and every
  cycle that completes performs, in this order: the read of the selected sensor (one
  hardware read, normalised by the read function of that sensor; none when no sensor
  1..6 is selected), the optional reversal, the write of the resulting value by the
  write function of the selected actuator (four digits, one duty or one colour; none
  when no actuator 1..3 is selected) and the delay of \<^verbatim>\<open>INTERVAL\<close>. It sends nothing to
  the cloud and leaves the publish counter as it was: the call of \<^verbatim>\<open>publishNumber\<close> is
  commented out.
\<close>

theorem loop_steps:
  "(canonical (fst (read_sensor cfg inp (SensorValue s))) \<longrightarrow>
      (\<exists>s' tr. loop cfg inp s = Inr (s', tr))) \<and>
   (\<forall>s' tr. loop cfg inp s = Inr (s', tr) \<longrightarrow>
      (\<exists>c reads writes.
         (SENSOR cfg = SENSOR_BUTTON \<longrightarrow>
            c = readButton (digital inp) \<and> reads = [DigitalRead SENSOR_BUTTON_PIN]) \<and>
         (SENSOR cfg = SENSOR_LIGHT \<longrightarrow>
            c = readLight (analog inp) \<and> reads = [AnalogRead SENSOR_LIGHT_PIN]) \<and>
         (SENSOR cfg = SENSOR_ROTARY \<longrightarrow>
            c = readRotary (analog inp) \<and> reads = [AnalogRead SENSOR_ROTARY_PIN]) \<and>
         (SENSOR cfg = SENSOR_ULTRASONIC \<longrightarrow>
            c = readUltrasonic (centimeters inp) \<and> reads = [MeasureInCentimeters]) \<and>
         (SENSOR cfg = SENSOR_DHT_HUMIDITY \<longrightarrow>
            c = readDhtHumidity (humidity inp) (SensorValue s) \<and> reads = [ReadHumidity]) \<and>
         (SENSOR cfg = SENSOR_DHT_TEMPERATURE \<longrightarrow>
            c = readDhtTemperature (temperature inp) (SensorValue s) \<and>
            reads = [ReadTemperature]) \<and>
         (SENSOR cfg < 1 \<or> 6 < SENSOR cfg \<longrightarrow> c = SensorValue s \<and> reads = []) \<and>
         read_sensor cfg inp (SensorValue s) = (c, reads) \<and>
         SensorValue s' = (if REVERSE cfg then to_float (fsub (Fin 1) c) else c) \<and>
         (ACTUATOR cfg = ACTUATOR_7SEG \<longrightarrow>
            write7Seg (SensorValue s') = Inr writes \<and> length writes = 4) \<and>
         (ACTUATOR cfg = ACTUATOR_BUZZ \<longrightarrow>
            writeBuzz (SensorValue s') = Inr writes \<and> length writes = 1) \<and>
         (ACTUATOR cfg = ACTUATOR_LED \<longrightarrow>
            writeLed (SensorValue s') = Inr writes \<and> length writes = 1) \<and>
         (ACTUATOR cfg < 1 \<or> 3 < ACTUATOR cfg \<longrightarrow> writes = []) \<and>
         write_actuator cfg (SensorValue s') = Inr writes \<and>
         tr = reads @ writes @ [Delay INTERVAL] \<and>
         list_all is_read reads \<and> length reads \<le> 1 \<and> list_all is_write writes \<and>
         \<not> list_ex is_publish tr \<and>
         PublishWaitCount s' = PublishWaitCount s))"
proof (intro conjI impI allI)
  let ?c = "fst (read_sensor cfg inp (SensorValue s))"
  assume "canonical ?c"
  then have "canonical (apply_reverse cfg ?c)" by (rule canonical_reverse)
  then obtain ws where "write_actuator cfg (apply_reverse cfg ?c) = Inr ws"
    using safe_write_actuator safe_write_Inr by blast
  then show "\<exists>s' tr. loop cfg inp s = Inr (s', tr)"
    by (simp add: loop_eq)
next
  fix s' tr
  let ?c = "fst (read_sensor cfg inp (SensorValue s))"
  let ?rs = "snd (read_sensor cfg inp (SensorValue s))"
  let ?v = "apply_reverse cfg ?c"
  assume l: "loop cfg inp s = Inr (s', tr)"
  then obtain ws where w: "write_actuator cfg ?v = Inr ws"
    and s': "s' = s\<lparr>SensorValue := ?v\<rparr>" and tr: "tr = ?rs @ ws @ [Delay INTERVAL]"
    by (auto simp: loop_eq split: sum.splits)
  have sv: "SensorValue s' = ?v" by (simp add: s')
  have rs: "list_all is_read ?rs" "length ?rs \<le> 1"
    using read_sensor_events by blast+
  have ws: "list_all is_write ws" using w by (rule write_actuator_events)
  have np: "\<not> list_ex is_publish tr" unfolding tr using rs(1) ws by (rule no_publish)
  note sel = read_sensor_selected [of cfg inp "SensorValue s"]
  note act = write_actuator_selected [of cfg ?v]
  show "\<exists>c reads writes.
         (SENSOR cfg = SENSOR_BUTTON \<longrightarrow>
            c = readButton (digital inp) \<and> reads = [DigitalRead SENSOR_BUTTON_PIN]) \<and>
         (SENSOR cfg = SENSOR_LIGHT \<longrightarrow>
            c = readLight (analog inp) \<and> reads = [AnalogRead SENSOR_LIGHT_PIN]) \<and>
         (SENSOR cfg = SENSOR_ROTARY \<longrightarrow>
            c = readRotary (analog inp) \<and> reads = [AnalogRead SENSOR_ROTARY_PIN]) \<and>
         (SENSOR cfg = SENSOR_ULTRASONIC \<longrightarrow>
            c = readUltrasonic (centimeters inp) \<and> reads = [MeasureInCentimeters]) \<and>
         (SENSOR cfg = SENSOR_DHT_HUMIDITY \<longrightarrow>
            c = readDhtHumidity (humidity inp) (SensorValue s) \<and> reads = [ReadHumidity]) \<and>
         (SENSOR cfg = SENSOR_DHT_TEMPERATURE \<longrightarrow>
            c = readDhtTemperature (temperature inp) (SensorValue s) \<and>
            reads = [ReadTemperature]) \<and>
         (SENSOR cfg < 1 \<or> 6 < SENSOR cfg \<longrightarrow> c = SensorValue s \<and> reads = []) \<and>
         read_sensor cfg inp (SensorValue s) = (c, reads) \<and>
         SensorValue s' = (if REVERSE cfg then to_float (fsub (Fin 1) c) else c) \<and>
         (ACTUATOR cfg = ACTUATOR_7SEG \<longrightarrow>
            write7Seg (SensorValue s') = Inr writes \<and> length writes = 4) \<and>
         (ACTUATOR cfg = ACTUATOR_BUZZ \<longrightarrow>
            writeBuzz (SensorValue s') = Inr writes \<and> length writes = 1) \<and>
         (ACTUATOR cfg = ACTUATOR_LED \<longrightarrow>
            writeLed (SensorValue s') = Inr writes \<and> length writes = 1) \<and>
         (ACTUATOR cfg < 1 \<or> 3 < ACTUATOR cfg \<longrightarrow> writes = []) \<and>
         write_actuator cfg (SensorValue s') = Inr writes \<and>
         tr = reads @ writes @ [Delay INTERVAL] \<and>
         list_all is_read reads \<and> length reads \<le> 1 \<and> list_all is_write writes \<and>
         \<not> list_ex is_publish tr \<and>
         PublishWaitCount s' = PublishWaitCount s"
  proof (rule exI [of _ ?c], rule exI [of _ ?rs], rule exI [of _ ws], intro conjI impI)
    show "read_sensor cfg inp (SensorValue s) = (?c, ?rs)" by simp
    show "SensorValue s' = (if REVERSE cfg then to_float (fsub (Fin 1) ?c) else ?c)"
      by (simp add: sv apply_reverse_def)
    show "write_actuator cfg (SensorValue s') = Inr ws" using w by (simp add: sv)
    show "tr = ?rs @ ws @ [Delay INTERVAL]" by (rule tr)
    show "PublishWaitCount s' = PublishWaitCount s" by (simp add: s')
    show "list_all is_read ?rs" "length ?rs \<le> 1" "list_all is_write ws"
      "\<not> list_ex is_publish tr"
      by (rule rs ws np)+
  next
    assume "SENSOR cfg = SENSOR_BUTTON"
    then show "?c = readButton (digital inp)" "?rs = [DigitalRead SENSOR_BUTTON_PIN]"
      using sel by simp_all
  next
    assume "SENSOR cfg = SENSOR_LIGHT"
    then show "?c = readLight (analog inp)" "?rs = [AnalogRead SENSOR_LIGHT_PIN]"
      using sel by simp_all
  next
    assume "SENSOR cfg = SENSOR_ROTARY"
    then show "?c = readRotary (analog inp)" "?rs = [AnalogRead SENSOR_ROTARY_PIN]"
      using sel by simp_all
  next
    assume "SENSOR cfg = SENSOR_ULTRASONIC"
    then show "?c = readUltrasonic (centimeters inp)" "?rs = [MeasureInCentimeters]"
      using sel by simp_all
  next
    assume "SENSOR cfg = SENSOR_DHT_HUMIDITY"
    then show "?c = readDhtHumidity (humidity inp) (SensorValue s)" "?rs = [ReadHumidity]"
      using sel by simp_all
  next
    assume "SENSOR cfg = SENSOR_DHT_TEMPERATURE"
    then show "?c = readDhtTemperature (temperature inp) (SensorValue s)"
      "?rs = [ReadTemperature]"
      using sel by simp_all
  next
    assume "SENSOR cfg < 1 \<or> 6 < SENSOR cfg"
    then show "?c = SensorValue s" "?rs = []"
      using sel by simp_all
  next
    assume "ACTUATOR cfg = ACTUATOR_7SEG"
    then have "write7Seg ?v = Inr ws" using act w by simp
    then show "write7Seg (SensorValue s') = Inr ws" "length ws = 4"
      using write7Seg_events [of ?v ws] by (simp_all add: sv)
  next
    assume "ACTUATOR cfg = ACTUATOR_BUZZ"
    then have "writeBuzz ?v = Inr ws" using act w by simp
    then show "writeBuzz (SensorValue s') = Inr ws" "length ws = 1"
      using writeBuzz_events [of ?v ws] by (simp_all add: sv)
  next
    assume "ACTUATOR cfg = ACTUATOR_LED"
    then have "writeLed ?v = Inr ws" using act w by simp
    then show "writeLed (SensorValue s') = Inr ws" "length ws = 1"
      using writeLed_events [of ?v ws] by (simp_all add: sv)
  next
    assume "ACTUATOR cfg < 1 \<or> 3 < ACTUATOR cfg"
    then show "ws = []" using act w by simp
  qed
qed


text \<open>
  C2 on the first cycle of a light sensor in full darkness driving the display: the
  read of the light sensor, four digits, the delay, and no publish event.
\<close>

theorem loop_steps_witness:
  "canonical (fst (read_sensor \<lparr>SENSOR = SENSOR_LIGHT, ACTUATOR = ACTUATOR_7SEG, REVERSE = False\<rparr>
      \<lparr>digital = 0, analog = 0, centimeters = 0, humidity = NaN, temperature = NaN\<rparr>
      (SensorValue init_state))) \<and>
   loop \<lparr>SENSOR = SENSOR_LIGHT, ACTUATOR = ACTUATOR_7SEG, REVERSE = False\<rparr>
      \<lparr>digital = 0, analog = 0, centimeters = 0, humidity = NaN, temperature = NaN\<rparr> init_state =
     Inr (\<lparr>SensorValue = Fin 1, PublishWaitCount = 100\<rparr>,
          [AnalogRead A4, Display 0 9, Display 1 9, Display 2 9, Display 3 9, Delay 10]) \<and>
   SENSOR \<lparr>SENSOR = SENSOR_LIGHT, ACTUATOR = ACTUATOR_7SEG, REVERSE = False\<rparr> = SENSOR_LIGHT \<and>
   ACTUATOR \<lparr>SENSOR = SENSOR_LIGHT, ACTUATOR = ACTUATOR_7SEG, REVERSE = False\<rparr> = ACTUATOR_7SEG \<and>
   (\<exists>c reads writes.
      c = readLight 0 \<and> reads = [AnalogRead SENSOR_LIGHT_PIN] \<and>
      write7Seg (Fin 1) = Inr writes \<and> length writes = 4 \<and>
      [AnalogRead A4, Display 0 9, Display 1 9, Display 2 9, Display 3 9, Delay 10] =
        reads @ writes @ [Delay INTERVAL] \<and>
      \<not> list_ex is_publish
          [AnalogRead A4, Display 0 9, Display 1 9, Display 2 9, Display 3 9, Delay 10])"
proof -
  let ?cfg = "\<lparr>SENSOR = SENSOR_LIGHT, ACTUATOR = ACTUATOR_7SEG, REVERSE = False\<rparr>"
  let ?inp = "\<lparr>digital = 0, analog = 0, centimeters = 0, humidity = NaN, temperature = NaN\<rparr>"
  let ?s' = "\<lparr>SensorValue = Fin 1, PublishWaitCount = 100\<rparr>"
  let ?tr = "[AnalogRead A4, Display 0 9, Display 1 9, Display 2 9, Display 3 9, Delay 10]"
  have r: "read_sensor ?cfg ?inp (SensorValue init_state) = (Fin 1, [AnalogRead A4])"
    by (simp add: read_sensor_def readLight_def of_cint_def config_consts SENSOR_LIGHT_PIN_def)
  have w: "write_actuator ?cfg (Fin 1) =
             Inr [Display 0 9, Display 1 9, Display 2 9, Display 3 9]"
    by (simp add: write_actuator_def config_consts write7Seg_Fin spec_display_value_def
        c_round_def INT_MIN_def INT_MAX_def)
  have l: "loop ?cfg ?inp init_state = Inr (?s', ?tr)"
    unfolding loop_eq r fst_conv snd_conv
    by (simp add: w apply_reverse_def init_state_def initial_def PUBLISH_WAIT_def INTERVAL_def)
  have h: "canonical (fst (read_sensor ?cfg ?inp (SensorValue init_state)))"
    by (simp add: r)
  have sel: "SENSOR ?cfg = SENSOR_LIGHT" "ACTUATOR ?cfg = ACTUATOR_7SEG" by simp_all
  note st = loop_steps [of ?cfg ?inp init_state, THEN conjunct2, rule_format, OF l]
  from st obtain c reads writes where
    a: "SENSOR ?cfg = SENSOR_LIGHT \<longrightarrow>
          c = readLight (analog ?inp) \<and> reads = [AnalogRead SENSOR_LIGHT_PIN]"
    and b: "ACTUATOR ?cfg = ACTUATOR_7SEG \<longrightarrow>
          write7Seg (SensorValue ?s') = Inr writes \<and> length writes = 4"
    and t: "?tr = reads @ writes @ [Delay INTERVAL]"
    and np: "\<not> list_ex is_publish ?tr"
    by blast
  have "c = readLight 0" "reads = [AnalogRead SENSOR_LIGHT_PIN]"
    using a sel(1) by simp_all
  moreover have "write7Seg (Fin 1) = Inr writes" "length writes = 4"
    using b sel(2) by simp_all
  ultimately have "\<exists>c reads writes.
      c = readLight 0 \<and> reads = [AnalogRead SENSOR_LIGHT_PIN] \<and>
      write7Seg (Fin 1) = Inr writes \<and> length writes = 4 \<and>
      ?tr = reads @ writes @ [Delay INTERVAL] \<and> \<not> list_ex is_publish ?tr"
    using t np by blast
  then show ?thesis using h l sel by blast
qed

text \<open>
  C2 as stated fails: the first cycle of the source's own selection sends nothing and
  leaves the counter at 100, where a call of \<^verbatim>\<open>publishNumber\<close> would have sent the value
  and reset the counter.
\<close>

theorem loop_never_publishes:
  "loop default_config
     \<lparr>digital = 0, analog = 2048, centimeters = 0, humidity = NaN, temperature = NaN\<rparr>
     init_state =
   Inr (\<lparr>SensorValue = Fin (1 / 2), PublishWaitCount = 100\<rparr>,
        [AnalogRead A2, AnalogWrite A0 (Fin (255 / 2)), Delay 10]) \<and>
   publishNumber PUBLISH_WAIT (Fin (1 / 2)) init_state =
     (\<lparr>SensorValue = Fin 0, PublishWaitCount = 0\<rparr>, [Publish (Fin (1 / 2))])"
proof -
  have f: "fl32 (255 / 2) = 255 / 2"
    using fl32_representable [of 255 "- 1"] by (simp add: pow2_def)
  show ?thesis
    by (simp add: loop_eq default_config_def init_state_def initial_def read_sensor_def
        apply_reverse_def write_actuator_def readRotary_def writeBuzz_Fin f of_cint_def
        config_consts SENSOR_ROTARY_PIN_def ACTUATOR_BUZZ_PIN_def INTERVAL_def
        PUBLISH_WAIT_def publishNumber_def)
qed

text \<open>
  With \<^verbatim>\<open>REVERSE\<close> off, a cycle whose humidity or temperature read returns the invalid
  marker keeps \<^verbatim>\<open>SensorValue\<close>.
\<close>

lemma fallback_keeps_value:
  assumes "\<not> REVERSE cfg"
    and "SENSOR cfg = SENSOR_DHT_HUMIDITY \<and> humidity inp = NaN \<or>
         SENSOR cfg = SENSOR_DHT_TEMPERATURE \<and> temperature inp = NaN"
    and "loop cfg inp s = Inr (s', tr)"
  shows "SensorValue s' = SensorValue s"
proof -
  have "fst (read_sensor cfg inp (SensorValue s)) = SensorValue s"
    using assms(2)
    by (auto simp: read_sensor_def readDhtHumidity_NaN readDhtTemperature_NaN config_consts)
  then show ?thesis
    using assms(1,3) by (auto simp: loop_eq apply_reverse_def split: sum.splits)
qed

text \<open>
  C3 does not hold of the code when \<^verbatim>\<open>REVERSE\<close> is on: \<^verbatim>\<open>SensorValue\<close> starts at 0, and
  a first cycle whose humidity read returns the invalid marker stores 1, because the
  reversal is applied to the value that the fallback handed back.
\<close>

theorem reverse_fallback_flips:
  "loop \<lparr>SENSOR = SENSOR_DHT_HUMIDITY, ACTUATOR = ACTUATOR_BUZZ, REVERSE = True\<rparr>
     \<lparr>digital = 0, analog = 0, centimeters = 0, humidity = NaN, temperature = NaN\<rparr>
     init_state =
   Inr (\<lparr>SensorValue = Fin 1, PublishWaitCount = 100\<rparr>,
        [ReadHumidity, AnalogWrite A0 (Fin 255), Delay 10]) \<and>
   SensorValue init_state = Fin 0"
  by (simp add: loop_eq init_state_def initial_def read_sensor_def apply_reverse_def
      write_actuator_def readDhtHumidity_def writeBuzz_Fin config_consts
      ACTUATOR_BUZZ_PIN_def INTERVAL_def PUBLISH_WAIT_def)





end
